theory Spec2Isabelle
  imports Main
begin

text \<open>
  The recipe backend: \<^verbatim>\<open>backend/src/index.ts\<close> (the routes and the authorization gate)
  with \<^verbatim>\<open>models/user.ts\<close> and \<^verbatim>\<open>models/recipe.ts\<close>. The source holds
  \<^verbatim>\<open>index.ts\<close> twice; the later text adds the routes on one recipe and on the account
  to the earlier one, and is the same on the routes they share. A route is a function
  from the environment, the document store and the request to the response and the new
  store; every \<^verbatim>\<open>return res.status(c).json(v)\<close> and every \<^verbatim>\<open>catch\<close> is a branch
  of it.
\<close>

section \<open>Values read from a request\<close>

text \<open>
  The recipe routes read \<^verbatim>\<open>req.body ?? {}\<close> and inspect the fields dynamically
  (\<^verbatim>\<open>!title\<close>, \<^verbatim>\<open>Array.isArray(ingredients)\<close>, \<^verbatim>\<open>title !== undefined\<close>), so a
  field of a recipe body is a JSON value, and \<open>None\<close> is JavaScript's \<^verbatim>\<open>undefined\<close>
  (the field is absent). JSON numbers are kept as integers: the code only tests whether
  one is zero.
\<close>

datatype jsval =
    JNull
  | JBool bool
  | JNum int
  | JStr string
  | JArr "jsval list"
  | JObj "(string \<times> jsval) list"

text \<open>JavaScript truthiness of a destructured field: \<^verbatim>\<open>!v\<close> is \<open>\<not> truthy v\<close>.\<close>

fun truthy :: "jsval option \<Rightarrow> bool" where
  "truthy None = False"
| "truthy (Some JNull) = False"
| "truthy (Some (JBool b)) = b"
| "truthy (Some (JNum n)) = (n \<noteq> 0)"
| "truthy (Some (JStr s)) = (s \<noteq> [])"
| "truthy (Some (JArr xs)) = True"
| "truthy (Some (JObj kvs)) = True"

text \<open>\<^verbatim>\<open>typeof v === "string"\<close>, for a value that is defined.\<close>

fun isString :: "jsval \<Rightarrow> bool" where
  "isString (JStr s) = True"
| "isString v = False"

text \<open>\<^verbatim>\<open>Array.isArray(v)\<close>.\<close>

fun isArray :: "jsval option \<Rightarrow> bool" where
  "isArray (Some (JArr xs)) = True"
| "isArray v = False"

text \<open>
  A value of type \<^verbatim>\<open>string | undefined\<close> (a header, an environment variable, a field
  of a token's payload) is a \<open>string option\<close>. \<open>present s\<close> is the string
  when \<^verbatim>\<open>s\<close> is truthy, so \<^verbatim>\<open>!s\<close> is \<open>present s = None\<close>: undefined and the empty
  string are both falsy.
\<close>

definition present :: "string option \<Rightarrow> string option" where
  "present s = (case s of None \<Rightarrow> None | Some t \<Rightarrow> if t = [] then None else Some t)"

section \<open>Documents\<close>

text \<open>
  An \<^verbatim>\<open>ObjectId\<close> is a 12-byte value, kept as the number it encodes. The fields
  \<^verbatim>\<open>_id\<close> are named \<open>u_id\<close> (accounts) and \<open>r_id\<close> (recipes).
\<close>

datatype ObjectId = ObjectId nat

fun oidNat :: "ObjectId \<Rightarrow> nat" where
  "oidNat (ObjectId n) = n"

text \<open>
  \<^verbatim>\<open>WithId<IUser>\<close> (models/user.ts). The record is declared in two steps so that
  the account without its password hash is a record of its own, and any further field of
  a \<^verbatim>\<open>T extends WithId<IUser>\<close> lives in the extension slot. The username and the
  email hold whatever JSON the registration stored (the route tests them for truthiness
  only); the password is the hash bcrypt returned, a string.
\<close>

record SanitizedUser =
  u_id :: ObjectId
  username :: jsval
  email :: jsval

record IUser = SanitizedUser +
  password :: string

text \<open>\<^verbatim>\<open>IRecipe\<close> with its \<^verbatim>\<open>_id\<close> (models/recipe.ts). The four content fields hold
  whatever JSON the routes stored.\<close>

record IRecipe =
  r_id :: ObjectId
  title :: jsval
  description :: jsval
  ingredients :: jsval
  instructions :: jsval
  ownerId :: ObjectId
  ownerUsername :: "string option"

text \<open>The document store: the two collections, in insertion order.\<close>

record Store =
  users :: "IUser list"
  recipes :: "IRecipe list"

subsection \<open>Collection operations\<close>

text \<open>
  The operations of the driver the routes call, on a collection kept as a list. A filter
  is a predicate on documents. \<open>findOne\<close> returns the first match; \<open>updateOne\<close> and
  \<open>deleteOne\<close> act on the first match and return \<^verbatim>\<open>matchedCount\<close> /
  \<^verbatim>\<open>deletedCount\<close> with the new collection; \<open>deleteMany\<close> removes every match.
  \<open>insertOne\<close> gives the document an identifier no document of the collection has and
  returns it as \<^verbatim>\<open>insertedId\<close>. Failures of the store itself (a lost connection) are
  not modelled; a query the store refuses is (\<open>mongo_filter\<close> below).
\<close>

definition findOne :: "('a \<Rightarrow> bool) \<Rightarrow> 'a list \<Rightarrow> 'a option" where
  "findOne p xs = find p xs"

fun updateOne :: "('a \<Rightarrow> bool) \<Rightarrow> ('a \<Rightarrow> 'a) \<Rightarrow> 'a list \<Rightarrow> nat \<times> 'a list" where
  "updateOne p f [] = (0, [])"
| "updateOne p f (x # xs) =
     (if p x then (1, f x # xs)
      else (case updateOne p f xs of (n, ys) \<Rightarrow> (n, x # ys)))"

fun deleteOne :: "('a \<Rightarrow> bool) \<Rightarrow> 'a list \<Rightarrow> nat \<times> 'a list" where
  "deleteOne p [] = (0, [])"
| "deleteOne p (x # xs) =
     (if p x then (1, xs)
      else (case deleteOne p xs of (n, ys) \<Rightarrow> (n, x # ys)))"

definition deleteMany :: "('a \<Rightarrow> bool) \<Rightarrow> 'a list \<Rightarrow> 'a list" where
  "deleteMany p xs = filter (\<lambda>x. \<not> p x) xs"

definition freshId :: "ObjectId list \<Rightarrow> ObjectId" where
  "freshId ids = ObjectId (Suc (fold max (map oidNat ids) 0))"

definition insertOne :: "('a \<Rightarrow> ObjectId) \<Rightarrow> (ObjectId \<Rightarrow> 'a) \<Rightarrow> 'a list \<Rightarrow> ObjectId \<times> 'a list" where
  "insertOne idOf doc xs = (let i = freshId (map idOf xs) in (i, xs @ [doc i]))"

section \<open>The environment of the process\<close>

text \<open>
  \<^verbatim>\<open>jwt.verify\<close> returns the payload or throws; the routes read \<^verbatim>\<open>payload?.sub\<close>
  and \<^verbatim>\<open>payload?.username\<close> as \<^verbatim>\<open>string | undefined\<close>.
\<close>

record JwtPayload =
  sub :: "string option"
  jwt_username :: "string option"
  jwt_email :: "string option"

text \<open>
  What the code takes from outside itself: the environment variable
  \<^verbatim>\<open>process.env.JWT_SECRET\<close> and the libraries (jsonwebtoken, bcrypt, the
  identifier type of the driver, \<^verbatim>\<open>crypto.randomUUID\<close>). They are parameters of the
  model. A library call that throws returns \<open>None\<close>.
  \<^item> \<open>jwt_verify token secret\<close>: \<^verbatim>\<open>jwt.verify(token, secret)\<close>; the clock it reads
    is part of the environment, so the gate and the handler of one request, which verify
    the same token one after the other, get the same answer;
  \<^item> \<open>jwt_sign payload secret expiresIn jwtid\<close>: \<^verbatim>\<open>jwt.sign(payload, secret, {expiresIn, jwtid})\<close>;
  \<^item> \<open>bcrypt_genSalt rounds\<close>, \<open>bcrypt_hash plain salt\<close>, \<open>bcrypt_compare candidate hash\<close>:
    bcrypt on strings (what it does with other data is \<open>bcryptHash\<close> and
    \<open>bcryptCompare\<close> below);
  \<^item> \<open>mongo_filter q\<close>: what the store makes of the value \<^verbatim>\<open>q\<close> in a filter
    \<^verbatim>\<open>{ field: q }\<close> of the accounts, where \<^verbatim>\<open>q\<close> is any JSON of the request:
    the test it applies to the field of a stored account (for a string, that a stored
    string is equal to it; an object of operators such as \<^verbatim>\<open>{ "$ne": null }\<close> is read
    as a query), or \<open>None\<close> when the store refuses the query and the call throws;
  \<^item> \<open>new_ObjectId s\<close>: \<^verbatim>\<open>new ObjectId(s)\<close>, which throws on a string that is not a
    well-formed identifier;
  \<^item> \<open>oid_toString\<close>: \<^verbatim>\<open>_id.toString()\<close>.
\<close>

record SignedClaims =
  claim_sub :: string
  claim_username :: jsval
  claim_email :: jsval

record Env =
  JWT_SECRET :: "string option"
  jwt_verify :: "string \<Rightarrow> string \<Rightarrow> JwtPayload option"
  jwt_sign :: "SignedClaims \<Rightarrow> string \<Rightarrow> string \<Rightarrow> string \<Rightarrow> string"
  bcrypt_genSalt :: "nat \<Rightarrow> string"
  bcrypt_hash :: "string \<Rightarrow> string \<Rightarrow> string"
  bcrypt_compare :: "string \<Rightarrow> string \<Rightarrow> bool"
  mongo_filter :: "jsval \<Rightarrow> (jsval \<Rightarrow> bool) option"
  new_ObjectId :: "string \<Rightarrow> ObjectId option"
  oid_toString :: "ObjectId \<Rightarrow> string"
  randomUUID :: string

text \<open>
  \<^verbatim>\<open>ObjectId.isValid(s)\<close> is, in the driver, "the constructor accepts \<^verbatim>\<open>s\<close>".
\<close>

definition ObjectId_isValid :: "Env \<Rightarrow> string \<Rightarrow> bool" where
  "ObjectId_isValid env s = (new_ObjectId env s \<noteq> None)"

section \<open>models/user.ts\<close>

text \<open>
  The functions are declared on strings, and the routes hand them the password of the
  request body as it came, any JSON. \<^verbatim>\<open>bcrypt.hash\<close> and \<^verbatim>\<open>bcrypt.compare\<close> check
  their arguments first: data that is not a string is an error, the promise is rejected
  and the \<^verbatim>\<open>await\<close> of the route throws (\<open>None\<close>).
\<close>

definition bcryptHash :: "Env \<Rightarrow> jsval \<Rightarrow> string \<Rightarrow> string option" where
  "bcryptHash env data salt =
     (case data of JStr plain \<Rightarrow> Some (bcrypt_hash env plain salt) | _ \<Rightarrow> None)"

definition bcryptCompare :: "Env \<Rightarrow> jsval \<Rightarrow> string \<Rightarrow> bool option" where
  "bcryptCompare env data encrypted =
     (case data of JStr candidate \<Rightarrow> Some (bcrypt_compare env candidate encrypted) | _ \<Rightarrow> None)"

definition hashPassword :: "Env \<Rightarrow> jsval \<Rightarrow> string option" where
  "hashPassword env plainPassword =
     (let salt = bcrypt_genSalt env 10 in bcryptHash env plainPassword salt)"

definition comparePassword :: "Env \<Rightarrow> jsval \<Rightarrow> string \<Rightarrow> bool option" where
  "comparePassword env candidatePassword hashedPassword =
     bcryptCompare env candidatePassword hashedPassword"

text \<open>
  \<^verbatim>\<open>const { password, ...rest } = user; return rest;\<close> The rest keeps every field
  but \<open>password\<close>, the fields of the extension included.
\<close>

definition sanitizeUser :: "'a IUser_scheme \<Rightarrow> 'a SanitizedUser_scheme" where
  "sanitizeUser user =
     \<lparr>u_id = u_id user, username = username user, email = email user, \<dots> = IUser.more user\<rparr>"

section \<open>Requests and responses\<close>

text \<open>
  \<^verbatim>\<open>res.status(c).json(v)\<close>. The JSON sent is an object \<^verbatim>\<open>{ message }\<close>, a sanitized
  account, \<^verbatim>\<open>{ user, token }\<close>, a recipe or an array of recipes.
\<close>

datatype Payload =
    Message string
  | UserJson SanitizedUser
  | LoginJson SanitizedUser string
  | RecipeJson IRecipe
  | RecipesJson "IRecipe list"

datatype Response = Response (status: nat) (json: Payload)

definition message :: "nat \<Rightarrow> string \<Rightarrow> Response" where
  "message code m = Response code (Message m)"

text \<open>
  The body of the account routes, \<^verbatim>\<open>const { username, email, password } = req.body ?? {}\<close>.
  The body is parsed JSON and nothing checks the type of a field, so each is any JSON
  value, or \<open>None\<close> when the body does not have it.
\<close>

record UserBody =
  b_username :: "jsval option"
  b_email :: "jsval option"
  b_password :: "jsval option"

text \<open>The body of the recipe routes,
  \<^verbatim>\<open>const { title, description, ingredients, instructions } = req.body ?? {}\<close>.\<close>

record RecipeBody =
  b_title :: "jsval option"
  b_description :: "jsval option"
  b_ingredients :: "jsval option"
  b_instructions :: "jsval option"

text \<open>
  A request to a recipe or account-deletion route: the \<^verbatim>\<open>Authorization\<close> header, the
  route parameter \<^verbatim>\<open>:id\<close> (a string) and the body.
\<close>

record Request =
  authorization :: "string option"
  params_id :: string
  body :: RecipeBody

section \<open>index.ts: the authorization gate\<close>

text \<open>
  \<^verbatim>\<open>authHeader?.startsWith("Bearer ") ? authHeader.slice(7) : undefined\<close>
\<close>

definition bearer :: "string option \<Rightarrow> string option" where
  "bearer authHeader =
     (case authHeader of
        None \<Rightarrow> None
      | Some h \<Rightarrow> if take 7 h = ''Bearer '' then Some (drop 7 h) else None)"

text \<open>The middleware either answers itself or calls \<^verbatim>\<open>next()\<close>.\<close>

datatype AuthResult = Next | Reply Response

definition requireAuth :: "Env \<Rightarrow> Request \<Rightarrow> AuthResult" where
  "requireAuth env req =
     (let token = bearer (authorization req) in
      case present token of
        None \<Rightarrow> Reply (message 401 ''Missing token'')
      | Some t \<Rightarrow>
          (case present (JWT_SECRET env) of
             None \<Rightarrow> Reply (message 500 ''JWT secret not configured'')
           | Some secret \<Rightarrow>
               (case jwt_verify env t secret of
                  None \<Rightarrow> Reply (message 401 ''Invalid token'')
                | Some payload \<Rightarrow> Next)))"

section \<open>index.ts: the account routes\<close>

text \<open>
  \<^verbatim>\<open>POST /api/register\<close>. Past the check of the three fields each is defined (an absent
  field is falsy), so the last branch of the \<open>case\<close> that names them is never taken. The
  route's \<^verbatim>\<open>catch\<close> answers 500 "Registration failed" to whatever throws inside its
  \<^verbatim>\<open>try\<close>: the lookup, when the store refuses the query, and the hashing, when the
  password is not a string.
\<close>

definition register :: "Env \<Rightarrow> Store \<Rightarrow> UserBody \<Rightarrow> Response \<times> Store" where
  "register env db b =
     (if \<not> truthy (b_username b) \<or> \<not> truthy (b_email b) \<or> \<not> truthy (b_password b)
      then (message 400 ''Missing required fields'', db)
      else
        (case (b_username b, b_email b, b_password b) of
           (Some uname, Some mail, Some pw) \<Rightarrow>
             (case (mongo_filter env uname, mongo_filter env mail) of
                (Some byUsername, Some byEmail) \<Rightarrow>
                  (case findOne (\<lambda>u. byUsername (username u) \<or> byEmail (email u)) (users db) of
                     Some existing \<Rightarrow> (message 409 ''User already exists'', db)
                   | None \<Rightarrow>
                       (case hashPassword env pw of
                          None \<Rightarrow> (message 500 ''Registration failed'', db)
                        | Some hashed \<Rightarrow>
                            (let (insertedId, users') =
                                   insertOne u_id
                                     (\<lambda>i. \<lparr>u_id = i, username = uname, email = mail,
                                           password = hashed\<rparr>)
                                     (users db);
                                 db' = db\<lparr>users := users'\<rparr>
                             in case findOne (\<lambda>u. u_id u = insertedId) users' of
                                  None \<Rightarrow> (message 500 ''Registration failed'', db')
                                | Some created \<Rightarrow>
                                    (Response 201 (UserJson (sanitizeUser created)), db'))))
              | _ \<Rightarrow> (message 500 ''Registration failed'', db))
         | _ \<Rightarrow> (message 400 ''Missing required fields'', db)))"

text \<open>
  \<^verbatim>\<open>POST /api/login\<close>. \<^verbatim>\<open>username ?? email\<close> takes the email only when the username
  is undefined or null (\<open>identifierOf\<close>). The route's \<^verbatim>\<open>catch\<close> answers 500 "Login
  failed" to whatever throws inside its \<^verbatim>\<open>try\<close>: the lookup, when the store refuses
  the query, and the comparison, when the password is not a string.
\<close>

definition identifierOf :: "UserBody \<Rightarrow> jsval option" where
  "identifierOf b =
     (case b_username b of
        None \<Rightarrow> b_email b
      | Some JNull \<Rightarrow> b_email b
      | Some u \<Rightarrow> Some u)"

definition login :: "Env \<Rightarrow> Store \<Rightarrow> UserBody \<Rightarrow> Response" where
  "login env db b =
     (let identifier = identifierOf b in
      if \<not> truthy identifier \<or> \<not> truthy (b_password b)
      then message 400 ''Missing required fields''
      else
        (case present (JWT_SECRET env) of
           None \<Rightarrow> message 500 ''JWT secret not configured''
         | Some secret \<Rightarrow>
             (case (identifier, b_password b) of
                (Some ident, Some pw) \<Rightarrow>
                  (case mongo_filter env ident of
                     None \<Rightarrow> message 500 ''Login failed''
                   | Some byIdentifier \<Rightarrow>
                       (case findOne (\<lambda>u. byIdentifier (username u) \<or> byIdentifier (email u))
                               (users db) of
                          None \<Rightarrow> message 401 ''Invalid credentials''
                        | Some user \<Rightarrow>
                            (case comparePassword env pw (password user) of
                               None \<Rightarrow> message 500 ''Login failed''
                             | Some ok \<Rightarrow>
                                 if \<not> ok
                                 then message 401 ''Invalid credentials''
                                 else
                                   (let token =
                                          jwt_sign env
                                            \<lparr>claim_sub = oid_toString env (u_id user),
                                             claim_username = username user,
                                             claim_email = email user\<rparr>
                                            secret ''1h'' (randomUUID env)
                                    in Response 200 (LoginJson (sanitizeUser user) token)))))
              | _ \<Rightarrow> message 400 ''Missing required fields'')))"

section \<open>index.ts: the recipe routes\<close>

text \<open>
  Every protected route is registered as \<^verbatim>\<open>app.METHOD(path, requireAuth, handler)\<close>: the
  handler runs when the gate calls \<^verbatim>\<open>next()\<close>.
\<close>

definition protected :: "Env \<Rightarrow> Store \<Rightarrow> Request \<Rightarrow> (Env \<Rightarrow> Store \<Rightarrow> Request \<Rightarrow> Response \<times> Store) \<Rightarrow> Response \<times> Store" where
  "protected env db req handler =
     (case requireAuth env req of
        Reply r \<Rightarrow> (r, db)
      | Next \<Rightarrow> handler env db req)"


text \<open>
  \<^verbatim>\<open>if (v !== undefined) update.k = v\<close>: the update document, as the list of its
  entries in the order they are set.
\<close>

definition entry :: "string \<Rightarrow> jsval option \<Rightarrow> (string \<times> jsval) list" where
  "entry k v = (case v of None \<Rightarrow> [] | Some x \<Rightarrow> [(k, x)])"

text \<open>\<^verbatim>\<open>{ $set: update }\<close> on a recipe: each entry overwrites the field it names.\<close>

fun setField :: "string \<times> jsval \<Rightarrow> IRecipe \<Rightarrow> IRecipe" where
  "setField (k, v) r =
     (if k = ''title'' then r\<lparr>title := v\<rparr>
      else if k = ''description'' then r\<lparr>description := v\<rparr>
      else if k = ''ingredients'' then r\<lparr>ingredients := v\<rparr>
      else if k = ''instructions'' then r\<lparr>instructions := v\<rparr>
      else r)"

definition applySet :: "(string \<times> jsval) list \<Rightarrow> IRecipe \<Rightarrow> IRecipe" where
  "applySet update r = fold setField update r"

text \<open>\<^verbatim>\<open>PATCH /api/recipes/:id\<close> (the handler)\<close>

definition patchRecipe :: "Env \<Rightarrow> Store \<Rightarrow> Request \<Rightarrow> Response \<times> Store" where
  "patchRecipe env db req =
     (let token = bearer (authorization req) in
      case present token of
        None \<Rightarrow> (message 401 ''Missing token'', db)
      | Some t \<Rightarrow>
      (case present (JWT_SECRET env) of
        None \<Rightarrow> (message 500 ''JWT secret not configured'', db)
      | Some secret \<Rightarrow>
      (let b = body req;
           update = entry ''title'' (b_title b) @ entry ''description'' (b_description b)
       in
       if b_ingredients b \<noteq> None \<and> \<not> isArray (b_ingredients b)
       then (message 400 ''Invalid ingredients'', db)
       else
         (let update = update @ entry ''ingredients'' (b_ingredients b)
                              @ entry ''instructions'' (b_instructions b)
          in
          if length update = 0
          then (message 400 ''No valid fields to update'', db)
          else
            (case jwt_verify env t secret of
               None \<Rightarrow> (message 500 ''Recipe update failed'', db)
             | Some payload \<Rightarrow>
            (case present (sub payload) of
               None \<Rightarrow> (message 401 ''Invalid token'', db)
             | Some s \<Rightarrow>
            (case new_ObjectId env s of
               None \<Rightarrow> (message 500 ''Recipe update failed'', db)
             | Some owner \<Rightarrow>
                 (let recipeIdParam = params_id req in
                  if \<not> ObjectId_isValid env recipeIdParam
                  then (message 400 ''Invalid recipe id'', db)
                  else
                    (case new_ObjectId env recipeIdParam of
                       None \<Rightarrow> (message 500 ''Recipe update failed'', db)
                     | Some recipeId \<Rightarrow>
                         (case updateOne (\<lambda>r. r_id r = recipeId \<and> ownerId r = owner)
                                 (applySet update) (recipes db) of
                            (matchedCount, recipes') \<Rightarrow>
                              if matchedCount = 0
                              then (message 404 ''Recipe not found'', db\<lparr>recipes := recipes'\<rparr>)
                              else
                                (case findOne (\<lambda>r. r_id r = recipeId) recipes' of
                                   None \<Rightarrow> (message 500 ''Recipe update failed'',
                                            db\<lparr>recipes := recipes'\<rparr>)
                                 | Some updated \<Rightarrow> (Response 200 (RecipeJson updated),
                                                   db\<lparr>recipes := recipes'\<rparr>))))))))))))"

text \<open>\<^verbatim>\<open>DELETE /api/account\<close> (the handler)\<close>

definition deleteAccount :: "Env \<Rightarrow> Store \<Rightarrow> Request \<Rightarrow> Response \<times> Store" where
  "deleteAccount env db req =
     (let token = bearer (authorization req) in
      case present token of
        None \<Rightarrow> (message 401 ''Missing token'', db)
      | Some t \<Rightarrow>
      (case present (JWT_SECRET env) of
        None \<Rightarrow> (message 500 ''JWT secret not configured'', db)
      | Some secret \<Rightarrow>
      (case jwt_verify env t secret of
         None \<Rightarrow> (message 500 ''Account deletion failed'', db)
       | Some payload \<Rightarrow>
      (case present (sub payload) of
         None \<Rightarrow> (message 401 ''Invalid token'', db)
       | Some s \<Rightarrow>
      (case new_ObjectId env s of
         None \<Rightarrow> (message 500 ''Account deletion failed'', db)
       | Some userId \<Rightarrow>
           (let db1 = db\<lparr>recipes := deleteMany (\<lambda>r. ownerId r = userId) (recipes db)\<rparr> in
            case deleteOne (\<lambda>u. u_id u = userId) (users db1) of
              (deletedCount, users') \<Rightarrow>
                if deletedCount = 0
                then (message 404 ''User not found'', db1\<lparr>users := users'\<rparr>)
                else (message 200 ''Account deleted'', db1\<lparr>users := users'\<rparr>)))))))"

text \<open>\<^verbatim>\<open>DELETE /api/recipes/:id\<close> (the handler)\<close>

definition deleteRecipe :: "Env \<Rightarrow> Store \<Rightarrow> Request \<Rightarrow> Response \<times> Store" where
  "deleteRecipe env db req =
     (let token = bearer (authorization req) in
      case present token of
        None \<Rightarrow> (message 401 ''Missing token'', db)
      | Some t \<Rightarrow>
      (case present (JWT_SECRET env) of
        None \<Rightarrow> (message 500 ''JWT secret not configured'', db)
      | Some secret \<Rightarrow>
      (case jwt_verify env t secret of
         None \<Rightarrow> (message 500 ''Recipe deletion failed'', db)
       | Some payload \<Rightarrow>
      (case present (sub payload) of
         None \<Rightarrow> (message 401 ''Invalid token'', db)
       | Some s \<Rightarrow>
      (case new_ObjectId env s of
         None \<Rightarrow> (message 500 ''Recipe deletion failed'', db)
       | Some owner \<Rightarrow>
      (case new_ObjectId env (params_id req) of
         None \<Rightarrow> (message 500 ''Recipe deletion failed'', db)
       | Some recipeId \<Rightarrow>
           (case deleteOne (\<lambda>r. r_id r = recipeId \<and> ownerId r = owner) (recipes db) of
              (deletedCount, recipes') \<Rightarrow>
                if deletedCount = 0
                then (message 404 ''Recipe not found'', db\<lparr>recipes := recipes'\<rparr>)
                else (message 200 ''Recipe deleted'', db\<lparr>recipes := recipes'\<rparr>))))))))"

text \<open>\<^verbatim>\<open>GET /api/recipes/:id\<close> (public). The constructor's throw lands in the route's
  \<^verbatim>\<open>catch\<close>, which answers 400.\<close>

definition getRecipe :: "Env \<Rightarrow> Store \<Rightarrow> string \<Rightarrow> Response" where
  "getRecipe env db recipeIdParam =
     (case new_ObjectId env recipeIdParam of
        None \<Rightarrow> message 400 ''Invalid recipe id''
      | Some recipeId \<Rightarrow>
          (case findOne (\<lambda>r. r_id r = recipeId) (recipes db) of
             None \<Rightarrow> message 404 ''Recipe not found''
           | Some item \<Rightarrow> Response 200 (RecipeJson item)))"

text \<open>\<^verbatim>\<open>GET /api/recipes\<close> (public)\<close>

definition getRecipes :: "Store \<Rightarrow> Response" where
  "getRecipes db = Response 200 (RecipesJson (recipes db))"


definition patchRecipeRoute :: "Env \<Rightarrow> Store \<Rightarrow> Request \<Rightarrow> Response \<times> Store" where
  "patchRecipeRoute env db req = protected env db req patchRecipe"

definition deleteRecipeRoute :: "Env \<Rightarrow> Store \<Rightarrow> Request \<Rightarrow> Response \<times> Store" where
  "deleteRecipeRoute env db req = protected env db req deleteRecipe"

definition deleteAccountRoute :: "Env \<Rightarrow> Store \<Rightarrow> Request \<Rightarrow> Response \<times> Store" where
  "deleteAccountRoute env db req = protected env db req deleteAccount"

text \<open>\<^verbatim>\<open>GET /api/token-test\<close>\<close>

definition tokenTestRoute :: "Env \<Rightarrow> Store \<Rightarrow> Request \<Rightarrow> Response \<times> Store" where
  "tokenTestRoute env db req =
     protected env db req (\<lambda>env db req. (message 200 ''Token is valid'', db))"

section \<open>The vocabulary of the specification\<close>

text \<open>
  "A request carrying a valid token": the bearer token of the request verifies under the
  configured secret. \<open>verifiedPayload\<close> is the payload it verifies to, and \<open>subjectId\<close>
  the identifier its subject names ("the token's subject id"). A token issued by
  \<open>login\<close> names the account's own \<^verbatim>\<open>_id\<close>.
\<close>

definition verifiedPayload :: "Env \<Rightarrow> Request \<Rightarrow> JwtPayload option" where
  "verifiedPayload env req =
     (case present (bearer (authorization req)) of
        None \<Rightarrow> None
      | Some t \<Rightarrow>
          (case present (JWT_SECRET env) of
             None \<Rightarrow> None
           | Some secret \<Rightarrow> jwt_verify env t secret))"

definition subjectId :: "Env \<Rightarrow> Request \<Rightarrow> ObjectId option" where
  "subjectId env req =
     (case verifiedPayload env req of
        None \<Rightarrow> None
      | Some payload \<Rightarrow>
          (case present (sub payload) of
             None \<Rightarrow> None
           | Some s \<Rightarrow> new_ObjectId env s))"

text \<open>
  "A recognized field is present": the body has one of the four fields. An update the
  route goes on with has one, and its ingredients, when given, are a sequence.
\<close>

definition recognizedField :: "RecipeBody \<Rightarrow> bool" where
  "recognizedField b =
     (b_title b \<noteq> None \<or> b_description b \<noteq> None \<or> b_ingredients b \<noteq> None \<or>
      b_instructions b \<noteq> None)"

definition ingredientsOk :: "RecipeBody \<Rightarrow> bool" where
  "ingredientsOk b = (b_ingredients b = None \<or> isArray (b_ingredients b))"

text \<open>What a partial update makes of a recipe: a field that is present replaces the
  recipe's, an absent one leaves it.\<close>

definition updated :: "RecipeBody \<Rightarrow> IRecipe \<Rightarrow> IRecipe" where
  "updated b r =
     r\<lparr>title := (case b_title b of None \<Rightarrow> title r | Some v \<Rightarrow> v),
       description := (case b_description b of None \<Rightarrow> description r | Some v \<Rightarrow> v),
       ingredients := (case b_ingredients b of None \<Rightarrow> ingredients r | Some v \<Rightarrow> v),
       instructions := (case b_instructions b of None \<Rightarrow> instructions r | Some v \<Rightarrow> v)\<rparr>"

section \<open>A sample environment and store\<close>

text \<open>
  Stand-ins for the libraries, to run the routes on concrete requests. Identifiers are
  written as 24 hexadecimal digits; tokens are looked up in a table; the "hash" of a
  password is the salt, a dollar sign and the password; the store's filter for a value
  is equality with it.
\<close>

fun position :: "'a \<Rightarrow> 'a list \<Rightarrow> nat option" where
  "position c [] = None"
| "position c (x # xs) = (if c = x then Some 0 else map_option Suc (position c xs))"

definition hexDigit :: "char \<Rightarrow> nat option" where
  "hexDigit c =
     (case position c ''0123456789abcdef'' of
        Some n \<Rightarrow> Some n
      | None \<Rightarrow> map_option (\<lambda>n. n + 10) (position c ''ABCDEF''))"

fun hexValue :: "nat \<Rightarrow> string \<Rightarrow> nat option" where
  "hexValue acc [] = Some acc"
| "hexValue acc (c # cs) =
     (case hexDigit c of None \<Rightarrow> None | Some d \<Rightarrow> hexValue (16 * acc + d) cs)"

definition hexObjectId :: "string \<Rightarrow> ObjectId option" where
  "hexObjectId s = (if length s = 24 then map_option ObjectId (hexValue 0 s) else None)"

fun hexString :: "nat \<Rightarrow> nat \<Rightarrow> string" where
  "hexString 0 n = []"
| "hexString (Suc k) n = hexString k (n div 16) @ [''0123456789abcdef'' ! (n mod 16)]"

definition toHexString :: "ObjectId \<Rightarrow> string" where
  "toHexString i = hexString 24 (oidNat i)"

definition aliceId :: string where
  "aliceId = ''000000000000000000000001''"

definition bobId :: string where
  "bobId = ''000000000000000000000002''"

definition ghostId :: string where
  "ghostId = ''000000000000000000000003''"

definition soupId :: string where
  "soupId = ''000000000000000000000010''"

definition testVerify :: "string \<Rightarrow> string \<Rightarrow> JwtPayload option" where
  "testVerify token secret =
     (if secret \<noteq> ''s3cr3t'' then None
      else if token = ''token-alice''
        then Some \<lparr>sub = Some aliceId, jwt_username = Some ''alice'',
                   jwt_email = Some ''alice@example.org''\<rparr>
      else if token = ''token-bob''
        then Some \<lparr>sub = Some bobId, jwt_username = Some ''bob'',
                   jwt_email = Some ''bob@example.org''\<rparr>
      else if token = ''token-ghost''
        then Some \<lparr>sub = Some ghostId, jwt_username = Some ''ghost'',
                   jwt_email = Some ''ghost@example.org''\<rparr>
      else None)"

definition testSign :: "SignedClaims \<Rightarrow> string \<Rightarrow> string \<Rightarrow> string \<Rightarrow> string" where
  "testSign payload secret expiresIn jwtid =
     ''token-'' @ (case claim_username payload of JStr u \<Rightarrow> u | _ \<Rightarrow> [])"

definition testEnv :: Env where
  "testEnv =
     \<lparr>JWT_SECRET = Some ''s3cr3t'',
      jwt_verify = testVerify,
      jwt_sign = testSign,
      bcrypt_genSalt = (\<lambda>rounds. ''salt''),
      bcrypt_hash = (\<lambda>plain salt. salt @ ''$'' @ plain),
      bcrypt_compare = (\<lambda>candidate hashed. hashed = ''salt$'' @ candidate),
      mongo_filter = (\<lambda>q. Some (\<lambda>v. v = q)),
      new_ObjectId = hexObjectId,
      oid_toString = toHexString,
      randomUUID = ''4b1d''\<rparr>"

definition alice :: IUser where
  "alice = \<lparr>u_id = ObjectId 1, username = JStr ''alice'',
            email = JStr ''alice@example.org'', password = ''salt$wonderland''\<rparr>"

definition bob :: IUser where
  "bob = \<lparr>u_id = ObjectId 2, username = JStr ''bob'', email = JStr ''bob@example.org'',
          password = ''salt$builder''\<rparr>"

definition soup :: IRecipe where
  "soup = \<lparr>r_id = ObjectId 16, title = JStr ''Soup'', description = JStr ''Warm'',
           ingredients = JArr [JStr ''water'', JStr ''salt''], instructions = JStr ''Boil'',
           ownerId = ObjectId 1, ownerUsername = Some ''alice''\<rparr>"

definition testStore :: Store where
  "testStore = \<lparr>users = [alice, bob], recipes = [soup]\<rparr>"

definition emptyBody :: RecipeBody where
  "emptyBody = \<lparr>b_title = None, b_description = None, b_ingredients = None,
                b_instructions = None\<rparr>"

definition requestWith :: "string \<Rightarrow> string \<Rightarrow> RecipeBody \<Rightarrow> Request" where
  "requestWith token ident b =
     \<lparr>authorization = Some (''Bearer '' @ token), params_id = ident, body = b\<rparr>"

section \<open>Facts about the building blocks\<close>

lemma present_Some_iff: "present s = Some t \<longleftrightarrow> s = Some t \<and> t \<noteq> []"
  by (auto simp: present_def split: option.splits if_splits)

lemma bearer_Some_iff: "bearer h = Some t \<longleftrightarrow> h = Some (''Bearer '' @ t)"
proof (cases h)
  case None
  then show ?thesis by (simp add: bearer_def)
next
  case (Some a)
  have "take 7 a = ''Bearer '' \<and> drop 7 a = t \<longleftrightarrow> a = ''Bearer '' @ t"
  proof
    assume h: "take 7 a = ''Bearer '' \<and> drop 7 a = t"
    have "a = take 7 a @ drop 7 a" by simp
    with h show "a = ''Bearer '' @ t" by simp
  next
    assume "a = ''Bearer '' @ t"
    then show "take 7 a = ''Bearer '' \<and> drop 7 a = t" by simp
  qed
  with Some show ?thesis by (auto simp: bearer_def)
qed

lemma token_present_iff:
  "present (bearer h) = Some t \<longleftrightarrow> t \<noteq> [] \<and> h = Some (''Bearer '' @ t)"
  by (auto simp: present_Some_iff bearer_Some_iff)


lemma subjectId_SomeD:
  assumes "subjectId env req = Some owner"
  obtains t secret p s where
    "present (bearer (authorization req)) = Some t"
    "present (JWT_SECRET env) = Some secret"
    "jwt_verify env t secret = Some p"
    "present (sub p) = Some s"
    "new_ObjectId env s = Some owner"
  using assms by (auto simp: subjectId_def verifiedPayload_def split: option.splits)

lemma requireAuth_Next_iff: "requireAuth env req = Next \<longleftrightarrow> verifiedPayload env req \<noteq> None"
  by (auto simp: requireAuth_def verifiedPayload_def split: option.splits)


lemma deleteOne_no_match: "\<forall>x\<in>set xs. \<not> p x \<Longrightarrow> deleteOne p xs = (0, xs)"
  by (induction xs) auto

lemma findOne_None_iff: "findOne p xs = None \<longleftrightarrow> (\<forall>x\<in>set xs. \<not> p x)"
  by (auto simp: findOne_def find_None_iff)

lemma findOne_SomeD: "findOne p xs = Some x \<Longrightarrow> x \<in> set xs \<and> p x"
  by (auto simp: findOne_def find_Some_iff)

section \<open>The authorization gate\<close>

text \<open>
  Claim C6. For every request to a protected route, the gate answers 401 "Missing token"
  when the request has no header \<^verbatim>\<open>Authorization: Bearer <token>\<close> with a non-empty
  token; 500 "JWT secret not configured" when it has one and no signing secret is
  configured (the variable is unset or empty); 401 "Invalid token" when it has one, a
  secret is configured and \<^verbatim>\<open>jwt.verify\<close> throws; and it calls \<^verbatim>\<open>next()\<close> otherwise.
\<close>

theorem requireAuth_gate:
  "((\<nexists>t. t \<noteq> [] \<and> authorization req = Some (''Bearer '' @ t)) \<longrightarrow>
      requireAuth env req = Reply (message 401 ''Missing token''))
   \<and> (t \<noteq> [] \<and> authorization req = Some (''Bearer '' @ t) \<longrightarrow>
        ((JWT_SECRET env = None \<or> JWT_SECRET env = Some []) \<longrightarrow>
           requireAuth env req = Reply (message 500 ''JWT secret not configured''))
        \<and> (secret \<noteq> [] \<and> JWT_SECRET env = Some secret \<longrightarrow>
             (jwt_verify env t secret = None \<longrightarrow>
                requireAuth env req = Reply (message 401 ''Invalid token''))
             \<and> (jwt_verify env t secret \<noteq> None \<longrightarrow> requireAuth env req = Next)))"
proof -
  have missing: "requireAuth env req = Reply (message 401 ''Missing token'')"
    if "\<nexists>t. t \<noteq> [] \<and> authorization req = Some (''Bearer '' @ t)"
  proof -
    from that have "present (bearer (authorization req)) = None"
      by (cases "present (bearer (authorization req))") (auto simp: token_present_iff)
    then show ?thesis by (simp add: requireAuth_def)
  qed
  have given: "present (bearer (authorization req)) = Some t"
    if "t \<noteq> []" "authorization req = Some (''Bearer '' @ t)"
    using that by (simp add: token_present_iff)
  have config: "requireAuth env req = Reply (message 500 ''JWT secret not configured'')"
    if "t \<noteq> []" "authorization req = Some (''Bearer '' @ t)"
       "JWT_SECRET env = None \<or> JWT_SECRET env = Some []"
    using given [OF that(1,2)] that(3)
    by (auto simp: requireAuth_def present_def)
  have checked: "requireAuth env req =
      (case jwt_verify env t secret of
         None \<Rightarrow> Reply (message 401 ''Invalid token'') | Some payload \<Rightarrow> Next)"
    if "t \<noteq> []" "authorization req = Some (''Bearer '' @ t)"
       "secret \<noteq> []" "JWT_SECRET env = Some secret"
    using given [OF that(1,2)] that(3,4)
    by (simp add: requireAuth_def) (simp add: present_def)
  show ?thesis
    using missing config checked by (auto split: option.splits)
qed

theorem requireAuth_gate_witness:
  "requireAuth testEnv \<lparr>authorization = None, params_id = [], body = emptyBody\<rparr>
     = Reply (message 401 ''Missing token'')
   \<and> requireAuth (testEnv\<lparr>JWT_SECRET := None\<rparr>) (requestWith ''token-alice'' [] emptyBody)
     = Reply (message 500 ''JWT secret not configured'')
   \<and> requireAuth testEnv (requestWith ''forged'' [] emptyBody)
     = Reply (message 401 ''Invalid token'')
   \<and> requireAuth testEnv (requestWith ''token-alice'' [] emptyBody) = Next"
  using
    requireAuth_gate [where req = "\<lparr>authorization = None, params_id = [], body = emptyBody\<rparr>"
                        and env = testEnv]
    requireAuth_gate [where t = "''token-alice''"
                        and req = "requestWith ''token-alice'' [] emptyBody"
                        and env = "testEnv\<lparr>JWT_SECRET := None\<rparr>"]
    requireAuth_gate [where t = "''forged''" and req = "requestWith ''forged'' [] emptyBody"
                        and env = testEnv and secret = "''s3cr3t''"]
    requireAuth_gate [where t = "''token-alice''"
                        and req = "requestWith ''token-alice'' [] emptyBody"
                        and env = testEnv and secret = "''s3cr3t''"]
  by (simp add: requestWith_def testEnv_def testVerify_def)

section \<open>Reading one recipe\<close>

text \<open>
  Claim C2, as stated: the public single-recipe read fails with NotFound when the id is
  absent from the store or malformed. On a malformed id the route answers 400 "Invalid
  recipe id", not 404: the constructor throws into the route's own \<^verbatim>\<open>catch\<close>.
\<close>

theorem getRecipe_malformed_counterexample:
  "new_ObjectId testEnv ''not-an-id'' = None
   \<and> getRecipe testEnv testStore ''not-an-id'' = message 400 ''Invalid recipe id''
   \<and> status (getRecipe testEnv testStore ''not-an-id'') \<noteq> 404"
  by (simp add: getRecipe_def testEnv_def hexObjectId_def message_def)

text \<open>
  Claim C2, amended: for every public single-recipe read, a well-formed id that no stored
  recipe has gives 404 "Recipe not found", and a malformed id gives 400 "Invalid recipe
  id" (InvalidInput); a well-formed id of a stored recipe gives 200 with that recipe.
\<close>

theorem getRecipe_absent_or_malformed:
  "(new_ObjectId env recipeIdParam = None \<longrightarrow>
      getRecipe env db recipeIdParam = message 400 ''Invalid recipe id'')
   \<and> (new_ObjectId env recipeIdParam = Some recipeId \<and>
        (\<forall>r\<in>set (recipes db). r_id r \<noteq> recipeId) \<longrightarrow>
      getRecipe env db recipeIdParam = message 404 ''Recipe not found'')
   \<and> (new_ObjectId env recipeIdParam = Some recipeId \<and>
        findOne (\<lambda>r. r_id r = recipeId) (recipes db) = Some item \<longrightarrow>
      getRecipe env db recipeIdParam = Response 200 (RecipeJson item))"
proof -
  have "findOne (\<lambda>r. r_id r = recipeId) (recipes db) = None"
    if "\<forall>r\<in>set (recipes db). r_id r \<noteq> recipeId"
    using that by (simp add: findOne_None_iff)
  then show ?thesis by (auto simp: getRecipe_def)
qed

theorem getRecipe_absent_or_malformed_witness:
  "getRecipe testEnv testStore ''not-an-id'' = message 400 ''Invalid recipe id''
   \<and> getRecipe testEnv testStore aliceId = message 404 ''Recipe not found''
   \<and> getRecipe testEnv testStore soupId = Response 200 (RecipeJson soup)"
  using
    getRecipe_absent_or_malformed [where env = testEnv and recipeIdParam = "''not-an-id''"
                                     and db = testStore]
    getRecipe_absent_or_malformed [where env = testEnv and recipeIdParam = aliceId
                                     and recipeId = "ObjectId 1" and db = testStore]
    getRecipe_absent_or_malformed [where env = testEnv and recipeIdParam = soupId
                                     and recipeId = "ObjectId 16" and db = testStore
                                     and item = soup]
  by (simp add: testEnv_def hexObjectId_def hexDigit_def aliceId_def soupId_def testStore_def
      soup_def findOne_def)


section \<open>The protected routes once the gate has admitted the request\<close>

lemma protected_admitted:
  "verifiedPayload env req = Some p \<Longrightarrow> protected env db req handler = handler env db req"
  using requireAuth_Next_iff [of env req] by (simp add: protected_def)

lemma subjectId_verified:
  "subjectId env req = Some owner \<Longrightarrow> \<exists>p. verifiedPayload env req = Some p"
  by (auto simp: subjectId_def split: option.splits)

lemma deleteRecipe_after_checks:
  assumes "subjectId env req = Some owner"
  shows "deleteRecipeRoute env db req =
     (case new_ObjectId env (params_id req) of
        None \<Rightarrow> (message 500 ''Recipe deletion failed'', db)
      | Some recipeId \<Rightarrow>
          (case deleteOne (\<lambda>r. r_id r = recipeId \<and> ownerId r = owner) (recipes db) of
             (deletedCount, recipes') \<Rightarrow>
               if deletedCount = 0
               then (message 404 ''Recipe not found'', db\<lparr>recipes := recipes'\<rparr>)
               else (message 200 ''Recipe deleted'', db\<lparr>recipes := recipes'\<rparr>)))"
proof -
  from assms obtain t secret p s where
    "present (bearer (authorization req)) = Some t"
    "present (JWT_SECRET env) = Some secret"
    "jwt_verify env t secret = Some p"
    "present (sub p) = Some s"
    "new_ObjectId env s = Some owner"
    by (rule subjectId_SomeD)
  moreover from assms obtain p' where "verifiedPayload env req = Some p'"
    using subjectId_verified by blast
  ultimately show ?thesis
    by (simp add: deleteRecipeRoute_def protected_admitted deleteRecipe_def)
qed

lemma applySet_entries:
  "applySet (entry ''title'' (b_title b) @ entry ''description'' (b_description b)
        @ entry ''ingredients'' (b_ingredients b) @ entry ''instructions'' (b_instructions b))
     = updated b"
  by (rule ext) (simp add: applySet_def entry_def updated_def split: option.splits)

lemma no_entries_iff:
  "(length (entry ''title'' (b_title b) @ entry ''description'' (b_description b)
        @ entry ''ingredients'' (b_ingredients b) @ entry ''instructions'' (b_instructions b)) = 0)
     = (\<not> recognizedField b)"
  by (simp add: entry_def recognizedField_def split: option.splits)

lemma ingredients_rejected_iff:
  "(b_ingredients b \<noteq> None \<and> \<not> isArray (b_ingredients b)) = (\<not> ingredientsOk b)"
  by (simp add: ingredientsOk_def)

lemma patchRecipe_after_checks:
  assumes "subjectId env req = Some owner"
  shows "patchRecipeRoute env db req =
     (if \<not> ingredientsOk (body req) then (message 400 ''Invalid ingredients'', db)
      else if \<not> recognizedField (body req) then (message 400 ''No valid fields to update'', db)
      else
        (case new_ObjectId env (params_id req) of
           None \<Rightarrow> (message 400 ''Invalid recipe id'', db)
         | Some recipeId \<Rightarrow>
             (case updateOne (\<lambda>r. r_id r = recipeId \<and> ownerId r = owner)
                     (updated (body req)) (recipes db) of
                (matchedCount, recipes') \<Rightarrow>
                  if matchedCount = 0
                  then (message 404 ''Recipe not found'', db\<lparr>recipes := recipes'\<rparr>)
                  else
                    (case findOne (\<lambda>r. r_id r = recipeId) recipes' of
                       None \<Rightarrow> (message 500 ''Recipe update failed'', db\<lparr>recipes := recipes'\<rparr>)
                     | Some item \<Rightarrow> (Response 200 (RecipeJson item),
                                     db\<lparr>recipes := recipes'\<rparr>)))))"
proof -
  from assms obtain t secret p s where facts:
    "present (bearer (authorization req)) = Some t"
    "present (JWT_SECRET env) = Some secret"
    "jwt_verify env t secret = Some p"
    "present (sub p) = Some s"
    "new_ObjectId env s = Some owner"
    by (rule subjectId_SomeD)
  from assms obtain p' where admitted: "verifiedPayload env req = Some p'"
    using subjectId_verified by blast
  have "patchRecipeRoute env db req = patchRecipe env db req"
    by (simp add: patchRecipeRoute_def protected_admitted [OF admitted])
  also have "\<dots> =
     (if \<not> ingredientsOk (body req) then (message 400 ''Invalid ingredients'', db)
      else if \<not> recognizedField (body req) then (message 400 ''No valid fields to update'', db)
      else
        (case new_ObjectId env (params_id req) of
           None \<Rightarrow> (message 400 ''Invalid recipe id'', db)
         | Some recipeId \<Rightarrow>
             (case updateOne (\<lambda>r. r_id r = recipeId \<and> ownerId r = owner)
                     (updated (body req)) (recipes db) of
                (matchedCount, recipes') \<Rightarrow>
                  if matchedCount = 0
                  then (message 404 ''Recipe not found'', db\<lparr>recipes := recipes'\<rparr>)
                  else
                    (case findOne (\<lambda>r. r_id r = recipeId) recipes' of
                       None \<Rightarrow> (message 500 ''Recipe update failed'', db\<lparr>recipes := recipes'\<rparr>)
                     | Some item \<Rightarrow> (Response 200 (RecipeJson item),
                                     db\<lparr>recipes := recipes'\<rparr>)))))"
    unfolding patchRecipe_def Let_def append_assoc applySet_entries no_entries_iff
      ingredients_rejected_iff
    using facts by (simp add: ObjectId_isValid_def split: option.splits)
  finally show ?thesis .
qed

lemma deleteAccount_after_checks:
  assumes "subjectId env req = Some userId"
  shows "deleteAccountRoute env db req =
     (case deleteOne (\<lambda>u. u_id u = userId) (users db) of
        (deletedCount, users') \<Rightarrow>
          (message (if deletedCount = 0 then 404 else 200)
             (if deletedCount = 0 then ''User not found'' else ''Account deleted''),
           \<lparr>users = users', recipes = filter (\<lambda>r. ownerId r \<noteq> userId) (recipes db)\<rparr>))"
proof -
  from assms obtain t secret p s where
    "present (bearer (authorization req)) = Some t"
    "present (JWT_SECRET env) = Some secret"
    "jwt_verify env t secret = Some p"
    "present (sub p) = Some s"
    "new_ObjectId env s = Some userId"
    by (rule subjectId_SomeD)
  moreover from assms obtain p' where "verifiedPayload env req = Some p'"
    using subjectId_verified by blast
  ultimately show ?thesis
    by (simp add: deleteAccountRoute_def protected_admitted deleteAccount_def Let_def
        deleteMany_def split: prod.splits)
qed

section \<open>Deleting an account that no longer exists\<close>

text \<open>
  Claim C8. For every delete-account request with a valid token whose subject id matches
  no stored account, the route answers 404 "User not found", and the store it leaves is
  the store without the recipes whose \<^verbatim>\<open>ownerId\<close> is that subject id: the recipes were
  deleted before the account was looked for, and stay deleted.
\<close>

theorem deleteAccount_missing_account:
  assumes "subjectId env req = Some userId"
      and "\<forall>u\<in>set (users db). u_id u \<noteq> userId"
  shows "deleteAccountRoute env db req =
           (message 404 ''User not found'',
            db\<lparr>recipes := filter (\<lambda>r. ownerId r \<noteq> userId) (recipes db)\<rparr>)"
  using assms(2)
  by (simp add: deleteAccount_after_checks [OF assms(1)] deleteOne_no_match)

theorem deleteAccount_missing_account_witness:
  "deleteAccountRoute testEnv (testStore\<lparr>users := [bob]\<rparr>) (requestWith ''token-alice'' [] emptyBody)
     = (message 404 ''User not found'', \<lparr>users = [bob], recipes = []\<rparr>)"
proof -
  have s: "subjectId testEnv (requestWith ''token-alice'' [] emptyBody) = Some (ObjectId 1)"
    by (simp add: subjectId_def verifiedPayload_def requestWith_def testEnv_def bearer_def
        present_def testVerify_def aliceId_def hexObjectId_def hexDigit_def)
  have u: "\<forall>u\<in>set (users (testStore\<lparr>users := [bob]\<rparr>)). u_id u \<noteq> ObjectId 1"
    by (simp add: bob_def)
  show ?thesis
    using deleteAccount_missing_account [OF s u]
    by (simp add: testStore_def soup_def)
qed

section \<open>Deleting a recipe with a malformed id\<close>

text \<open>
  Claim C9. For every authenticated delete-recipe request whose \<^verbatim>\<open>:id\<close> is not a
  well-formed identifier, the route answers 500 "Recipe deletion failed" (the constructor
  throws into the route's \<^verbatim>\<open>catch\<close>), not 400 or 404, and the store is unchanged; the
  update route answers 400 to the same request and leaves the store unchanged too.
\<close>

theorem deleteRecipe_malformed_id:
  assumes "subjectId env req = Some owner"
      and "new_ObjectId env (params_id req) = None"
  shows "deleteRecipeRoute env db req = (message 500 ''Recipe deletion failed'', db)
       \<and> status (fst (patchRecipeRoute env db req)) = 400
       \<and> snd (patchRecipeRoute env db req) = db"
  using assms(2)
  by (simp add: deleteRecipe_after_checks [OF assms(1)] patchRecipe_after_checks [OF assms(1)]
      message_def)

theorem deleteRecipe_malformed_id_witness:
  "deleteRecipeRoute testEnv testStore (requestWith ''token-alice'' ''soup'' emptyBody)
     = (message 500 ''Recipe deletion failed'', testStore)
   \<and> status (fst (patchRecipeRoute testEnv testStore (requestWith ''token-alice'' ''soup'' emptyBody)))
     = 400
   \<and> snd (patchRecipeRoute testEnv testStore (requestWith ''token-alice'' ''soup'' emptyBody))
     = testStore"
proof -
  have s: "subjectId testEnv (requestWith ''token-alice'' ''soup'' emptyBody) = Some (ObjectId 1)"
    by (simp add: subjectId_def verifiedPayload_def requestWith_def testEnv_def bearer_def
        present_def testVerify_def aliceId_def hexObjectId_def hexDigit_def)
  have m: "new_ObjectId testEnv (params_id (requestWith ''token-alice'' ''soup'' emptyBody)) = None"
    by (simp add: requestWith_def testEnv_def hexObjectId_def)
  show ?thesis
    by (rule deleteRecipe_malformed_id [OF s m])
qed

section \<open>Updating or deleting a recipe one does not own\<close>




section \<open>Inserted documents\<close>

lemma fold_max_upper: "x \<in> set xs \<Longrightarrow> x \<le> fold max xs (a::nat)"
proof -
  assume "x \<in> set xs"
  then have "x \<le> Max (set (a # xs))" by (intro Max_ge) auto
  then show ?thesis by (simp only: Max.set_eq_fold)
qed

lemma freshId_fresh: "freshId ids \<notin> set ids"
proof
  assume "freshId ids \<in> set ids"
  then have "oidNat (freshId ids) \<in> set (map oidNat ids)" by simp
  then have "oidNat (freshId ids) \<le> fold max (map oidNat ids) 0" by (rule fold_max_upper)
  then show False by (simp add: freshId_def)
qed

lemma find_append_no_match: "\<forall>x\<in>set xs. \<not> P x \<Longrightarrow> find P (xs @ ys) = find P ys"
  by (induction xs) auto

lemma findOne_inserted:
  assumes "idOf d = freshId (map idOf xs)"
  shows "findOne (\<lambda>x. idOf x = freshId (map idOf xs)) (xs @ [d]) = Some d"
proof -
  have "\<forall>x\<in>set xs. idOf x \<noteq> freshId (map idOf xs)"
    using freshId_fresh [of "map idOf xs"] by (metis image_eqI set_map)
  then show ?thesis using assms by (simp add: findOne_def find_append_no_match)
qed

section \<open>Registration\<close>


text \<open>The route on a body that has its three fields and whose lookup the store accepts.\<close>

lemma register_result:
  assumes "b_username b = Some uname" and "truthy (Some uname)"
      and "b_email b = Some mail" and "truthy (Some mail)"
      and "b_password b = Some pw" and "truthy (Some pw)"
      and "mongo_filter env uname = Some byUsername"
      and "mongo_filter env mail = Some byEmail"
  shows "register env db b =
     (if \<exists>u\<in>set (users db). byUsername (username u) \<or> byEmail (email u)
      then (message 409 ''User already exists'', db)
      else
        (case hashPassword env pw of
           None \<Rightarrow> (message 500 ''Registration failed'', db)
         | Some hashed \<Rightarrow>
             (Response 201 (UserJson \<lparr>u_id = freshId (map u_id (users db)),
                                      username = uname, email = mail\<rparr>),
              db\<lparr>users := users db @
                 [\<lparr>u_id = freshId (map u_id (users db)), username = uname, email = mail,
                   password = hashed\<rparr>]\<rparr>)))"
proof (cases "\<exists>u\<in>set (users db). byUsername (username u) \<or> byEmail (email u)")
  case True
  then have "findOne (\<lambda>u. byUsername (username u) \<or> byEmail (email u)) (users db) \<noteq> None"
    by (simp add: findOne_None_iff)
  with True assms show ?thesis
    by (auto simp: register_def)
next
  case False
  then have none: "findOne (\<lambda>u. byUsername (username u) \<or> byEmail (email u)) (users db) = None"
    by (simp add: findOne_None_iff)
  show ?thesis
  proof (cases "hashPassword env pw")
    case None
    with False assms none show ?thesis
      by (simp add: register_def)
  next
    case (Some hashed)
    let ?new = "\<lparr>u_id = freshId (map u_id (users db)), username = uname, email = mail,
                  password = hashed\<rparr>"
    have found: "findOne (\<lambda>u. u_id u = freshId (map u_id (users db))) (users db @ [?new])
        = Some ?new"
      by (rule findOne_inserted) simp
    show ?thesis
      using assms none found False Some
      by (simp add: register_def insertOne_def Let_def sanitizeUser_def)
  qed
qed

lemma register_201D:
  assumes "status (fst (register env db b)) = 201"
  obtains uname mail pw byUsername byEmail where
    "b_username b = Some uname" "truthy (Some uname)"
    "b_email b = Some mail" "truthy (Some mail)"
    "b_password b = Some pw" "truthy (Some pw)"
    "mongo_filter env uname = Some byUsername"
    "mongo_filter env mail = Some byEmail"
proof -
  have u: "truthy (b_username b)" and m: "truthy (b_email b)" and p: "truthy (b_password b)"
    using assms by (auto simp: register_def message_def split: if_splits)
  then obtain uname mail pw where fields:
    "b_username b = Some uname" "b_email b = Some mail" "b_password b = Some pw"
    by (cases "b_username b"; cases "b_email b"; cases "b_password b") auto
  have "mongo_filter env uname \<noteq> None \<and> mongo_filter env mail \<noteq> None"
    using assms u m p fields
    by (auto simp: register_def message_def split: option.splits)
  then obtain byUsername byEmail where
    "mongo_filter env uname = Some byUsername" "mongo_filter env mail = Some byEmail"
    by blast
  with fields u m p show ?thesis
    using that by simp
qed




section \<open>Login\<close>

lemma comparePassword_string:
  "comparePassword env (JStr candidate) hashed = Some (bcrypt_compare env candidate hashed)"
  by (simp add: comparePassword_def bcryptCompare_def)

lemma comparePassword_other: "\<not> isString pw \<Longrightarrow> comparePassword env pw hashed = None"
  by (cases pw) (simp_all add: comparePassword_def bcryptCompare_def)

text \<open>The route on a body that has an identifier and a password, with a secret
  configured and a lookup the store accepts.\<close>

lemma login_result:
  assumes "present (JWT_SECRET env) = Some secret"
      and "identifierOf b = Some ident" and "truthy (Some ident)"
      and "b_password b = Some pw" and "truthy (Some pw)"
      and "mongo_filter env ident = Some byIdentifier"
  shows "login env db b =
     (case findOne (\<lambda>u. byIdentifier (username u) \<or> byIdentifier (email u)) (users db) of
        None \<Rightarrow> message 401 ''Invalid credentials''
      | Some user \<Rightarrow>
          (case comparePassword env pw (password user) of
             None \<Rightarrow> message 500 ''Login failed''
           | Some ok \<Rightarrow>
               if ok
               then Response 200 (LoginJson (sanitizeUser user)
                      (jwt_sign env
                         \<lparr>claim_sub = oid_toString env (u_id user),
                          claim_username = username user, claim_email = email user\<rparr>
                         secret ''1h'' (randomUUID env)))
               else message 401 ''Invalid credentials''))"
  using assms by (simp add: login_def Let_def split: option.splits)

lemma login_200D:
  assumes "status (login env db b) = 200"
  obtains ident pw secret byIdentifier user where
    "identifierOf b = Some ident" "truthy (Some ident)"
    "b_password b = Some pw" "truthy (Some pw)"
    "present (JWT_SECRET env) = Some secret"
    "mongo_filter env ident = Some byIdentifier"
    "findOne (\<lambda>u. byIdentifier (username u) \<or> byIdentifier (email u)) (users db) = Some user"
    "comparePassword env pw (password user) = Some True"
proof -
  have i: "truthy (identifierOf b)" and p: "truthy (b_password b)"
    using assms by (auto simp: login_def Let_def message_def split: if_splits)
  then obtain ident pw where fields: "identifierOf b = Some ident" "b_password b = Some pw"
    by (cases "identifierOf b"; cases "b_password b") auto
  have "present (JWT_SECRET env) \<noteq> None"
  proof
    assume "present (JWT_SECRET env) = None"
    with i p have "login env db b = message 500 ''JWT secret not configured''"
      by (simp add: login_def Let_def)
    with assms show False by (simp add: message_def)
  qed
  then obtain secret where secret: "present (JWT_SECRET env) = Some secret"
    by blast
  have "mongo_filter env ident \<noteq> None"
  proof
    assume "mongo_filter env ident = None"
    with i p fields secret have "login env db b = message 500 ''Login failed''"
      by (simp add: login_def Let_def)
    with assms show False by (simp add: message_def)
  qed
  then obtain byIdentifier where sel: "mongo_filter env ident = Some byIdentifier"
    by blast
  have r: "login env db b =
     (case findOne (\<lambda>u. byIdentifier (username u) \<or> byIdentifier (email u)) (users db) of
        None \<Rightarrow> message 401 ''Invalid credentials''
      | Some user \<Rightarrow>
          (case comparePassword env pw (password user) of
             None \<Rightarrow> message 500 ''Login failed''
           | Some ok \<Rightarrow>
               if ok
               then Response 200 (LoginJson (sanitizeUser user)
                      (jwt_sign env
                         \<lparr>claim_sub = oid_toString env (u_id user),
                          claim_username = username user, claim_email = email user\<rparr>
                         secret ''1h'' (randomUUID env)))
               else message 401 ''Invalid credentials''))"
    using secret fields i p sel by (intro login_result) simp_all
  from assms obtain user where
    "findOne (\<lambda>u. byIdentifier (username u) \<or> byIdentifier (email u)) (users db) = Some user"
    "comparePassword env pw (password user) = Some True"
    unfolding r by (auto simp: message_def split: option.splits if_splits)
  with fields i p secret sel show ?thesis
    using that by simp
qed

text \<open>
  With a string for a password the two rejections are one response: a password that
  fails against the account found, and an identifier that finds no account, are both
  answered 401 "Invalid credentials".
\<close>

lemma login_string_password_rejected:
  assumes "present (JWT_SECRET env) = Some secret"
      and "identifierOf b1 = Some ident1" and "truthy (Some ident1)"
      and "b_password b1 = Some (JStr pw1)" and "pw1 \<noteq> []"
      and "identifierOf b2 = Some ident2" and "truthy (Some ident2)"
      and "b_password b2 = Some (JStr pw2)" and "pw2 \<noteq> []"
      and "mongo_filter env ident1 = Some by1" and "mongo_filter env ident2 = Some by2"
      and "findOne (\<lambda>u. by1 (username u) \<or> by1 (email u)) (users db) = Some account"
      and "\<not> bcrypt_compare env pw1 (password account)"
      and "findOne (\<lambda>u. by2 (username u) \<or> by2 (email u)) (users db) = None"
  shows "login env db b1 = message 401 ''Invalid credentials''
       \<and> login env db b2 = message 401 ''Invalid credentials''"
proof -
  have "login env db b1 = message 401 ''Invalid credentials''"
    using assms(5,12,13)
    by (simp add: login_result [OF assms(1-3) assms(4) _ assms(10)] comparePassword_string)
  moreover have "login env db b2 = message 401 ''Invalid credentials''"
    using assms(9,14)
    by (simp add: login_result [OF assms(1) assms(6,7) assms(8) _ assms(11)])
  ultimately show ?thesis by simp
qed

text \<open>
  Claim C3 says that a login with a wrong password for an existing account and a login
  with an identifier matching no account get the identical 401 "Invalid credentials".
  The route gives both branches that response, and misses one case. With a secret
  configured, take two login requests whose password is present and not a string (the
  number 12345): the one whose identifier finds an account is answered 500 "Login
  failed", because \<^verbatim>\<open>bcrypt.compare\<close> throws into the route's \<^verbatim>\<open>catch\<close>; the one whose
  identifier finds no account is answered 401 "Invalid credentials", because nothing is
  compared. The two responses differ, and tell whether the account exists.
\<close>

theorem login_nonstring_password_reveals_account:
  assumes "present (JWT_SECRET env) = Some secret"
      and "identifierOf b1 = Some ident1" and "truthy (Some ident1)"
      and "b_password b1 = Some pw1" and "truthy (Some pw1)" and "\<not> isString pw1"
      and "identifierOf b2 = Some ident2" and "truthy (Some ident2)"
      and "b_password b2 = Some pw2" and "truthy (Some pw2)" and "\<not> isString pw2"
      and "mongo_filter env ident1 = Some by1" and "mongo_filter env ident2 = Some by2"
      and "findOne (\<lambda>u. by1 (username u) \<or> by1 (email u)) (users db) = Some account"
      and "findOne (\<lambda>u. by2 (username u) \<or> by2 (email u)) (users db) = None"
  shows "login env db b1 = message 500 ''Login failed''
       \<and> login env db b2 = message 401 ''Invalid credentials''
       \<and> login env db b1 \<noteq> login env db b2"
proof -
  have 1: "login env db b1 = message 500 ''Login failed''"
    using assms(14)
    by (simp add: login_result [OF assms(1-5) assms(12)] comparePassword_other [OF assms(6)])
  have 2: "login env db b2 = message 401 ''Invalid credentials''"
    using assms(15)
    by (simp add: login_result [OF assms(1) assms(7-10) assms(13)])
  from 1 2 show ?thesis by (simp add: message_def)
qed

theorem login_nonstring_password_reveals_account_witness:
  "login testEnv testStore
      \<lparr>b_username = Some (JStr ''alice''), b_email = None, b_password = Some (JNum 12345)\<rparr>
     = message 500 ''Login failed''
   \<and> login testEnv testStore
      \<lparr>b_username = Some (JStr ''nobody''), b_email = None, b_password = Some (JNum 12345)\<rparr>
     = message 401 ''Invalid credentials''"
proof -
  let ?b1 = "\<lparr>b_username = Some (JStr ''alice''), b_email = None,
              b_password = Some (JNum 12345)\<rparr>"
  let ?b2 = "\<lparr>b_username = Some (JStr ''nobody''), b_email = None,
              b_password = Some (JNum 12345)\<rparr>"
  have secret: "present (JWT_SECRET testEnv) = Some ''s3cr3t''"
    by (simp add: present_def testEnv_def)
  have i1: "identifierOf ?b1 = Some (JStr ''alice'')"
    and i2: "identifierOf ?b2 = Some (JStr ''nobody'')"
    by (simp_all add: identifierOf_def)
  have f: "mongo_filter testEnv q = Some (\<lambda>v. v = q)" for q
    by (simp add: testEnv_def)
  have found: "findOne (\<lambda>u. username u = JStr ''alice'' \<or> email u = JStr ''alice'')
      (users testStore) = Some alice"
    by (simp add: findOne_def testStore_def alice_def)
  have unknown: "findOne (\<lambda>u. username u = JStr ''nobody'' \<or> email u = JStr ''nobody'')
      (users testStore) = None"
    by (simp add: findOne_def testStore_def alice_def bob_def)
  show ?thesis
    using login_nonstring_password_reveals_account [where ?b1.0 = ?b1 and ?b2.0 = ?b2,
        OF secret i1 _ _ _ _ i2 _ _ _ _ f f found unknown]
    by simp
qed

section \<open>The sanitized account\<close>

text \<open>
  Claim C5. \<open>sanitizeUser\<close> keeps the identifier, the username, the email and every
  further field of the account as they are, and the account is its sanitized form with
  the password put back: exactly the password field is removed, and the result does not
  depend on it. The account a successful registration (201) returns is the sanitized form
  of an account of the resulting store, and the account a successful login (200) returns
  is the sanitized form of a stored account.
\<close>

theorem sanitizeUser_removes_password:
  "u_id (sanitizeUser user) = u_id user
   \<and> username (sanitizeUser user) = username user
   \<and> email (sanitizeUser user) = email user
   \<and> SanitizedUser.more (sanitizeUser user) = IUser.more user
   \<and> user = \<lparr>u_id = u_id (sanitizeUser user), username = username (sanitizeUser user),
              email = email (sanitizeUser user), password = password user,
              \<dots> = SanitizedUser.more (sanitizeUser user)\<rparr>
   \<and> sanitizeUser (user\<lparr>password := h\<rparr>) = sanitizeUser user
   \<and> (status (fst (register env db b)) = 201 \<longrightarrow>
        (\<exists>created\<in>set (users (snd (register env db b))).
           json (fst (register env db b)) = UserJson (sanitizeUser created)))
   \<and> (status (login env db b') = 200 \<longrightarrow>
        (\<exists>account\<in>set (users db). \<exists>token.
           json (login env db b') = LoginJson (sanitizeUser account) token))"
proof (intro conjI impI)
  show "user = \<lparr>u_id = u_id (sanitizeUser user), username = username (sanitizeUser user),
              email = email (sanitizeUser user), password = password user,
              \<dots> = SanitizedUser.more (sanitizeUser user)\<rparr>"
    by (simp add: sanitizeUser_def)
next
  assume created: "status (fst (register env db b)) = 201"
  then obtain uname mail pw byUsername byEmail where fields:
    "b_username b = Some uname" "truthy (Some uname)"
    "b_email b = Some mail" "truthy (Some mail)"
    "b_password b = Some pw" "truthy (Some pw)"
    "mongo_filter env uname = Some byUsername"
    "mongo_filter env mail = Some byEmail"
    by (rule register_201D)
  show "\<exists>created\<in>set (users (snd (register env db b))).
      json (fst (register env db b)) = UserJson (sanitizeUser created)"
    using created unfolding register_result [OF fields]
    by (auto simp: message_def sanitizeUser_def split: option.splits if_splits)
next
  assume "status (login env db b') = 200"
  then obtain ident pw secret byIdentifier account where
    "identifierOf b' = Some ident" "truthy (Some ident)"
    "b_password b' = Some pw" "truthy (Some pw)"
    "present (JWT_SECRET env) = Some secret"
    "mongo_filter env ident = Some byIdentifier"
    and found: "findOne (\<lambda>u. byIdentifier (username u) \<or> byIdentifier (email u)) (users db)
        = Some account"
    and "comparePassword env pw (password account) = Some True"
    by (rule login_200D)
  then have "\<exists>token. json (login env db b') = LoginJson (sanitizeUser account) token"
    by (simp add: login_result)
  with findOne_SomeD [OF found]
  show "\<exists>account\<in>set (users db). \<exists>token.
      json (login env db b') = LoginJson (sanitizeUser account) token"
    by blast
qed (simp_all add: sanitizeUser_def)

theorem sanitizeUser_removes_password_witness:
  "sanitizeUser alice = \<lparr>u_id = ObjectId 1, username = JStr ''alice'',
                          email = JStr ''alice@example.org''\<rparr>
   \<and> (\<exists>created\<in>set (users (snd (register testEnv testStore
         \<lparr>b_username = Some (JStr ''carol''), b_email = Some (JStr ''carol@example.org''),
          b_password = Some (JStr ''pw'')\<rparr>))).
        json (fst (register testEnv testStore
         \<lparr>b_username = Some (JStr ''carol''), b_email = Some (JStr ''carol@example.org''),
          b_password = Some (JStr ''pw'')\<rparr>)) = UserJson (sanitizeUser created))
   \<and> (\<exists>account\<in>set (users testStore). \<exists>token.
        json (login testEnv testStore
         \<lparr>b_username = Some (JStr ''alice''), b_email = None,
          b_password = Some (JStr ''wonderland'')\<rparr>)
        = LoginJson (sanitizeUser account) token)"
proof -
  let ?r = "\<lparr>b_username = Some (JStr ''carol''), b_email = Some (JStr ''carol@example.org''),
             b_password = Some (JStr ''pw'')\<rparr>"
  let ?l = "\<lparr>b_username = Some (JStr ''alice''), b_email = None,
             b_password = Some (JStr ''wonderland'')\<rparr>"
  have r: "status (fst (register testEnv testStore ?r)) = 201"
    by (simp add: register_def findOne_def testStore_def alice_def bob_def testEnv_def
        hashPassword_def bcryptHash_def insertOne_def Let_def freshId_def)
  have l: "status (login testEnv testStore ?l) = 200"
    by (simp add: login_def present_def identifierOf_def findOne_def testStore_def alice_def
        testEnv_def comparePassword_def bcryptCompare_def)
  have a: "sanitizeUser alice
      = \<lparr>u_id = ObjectId 1, username = JStr ''alice'', email = JStr ''alice@example.org''\<rparr>"
    by (simp add: sanitizeUser_def alice_def)
  show ?thesis
    using sanitizeUser_removes_password [where env = testEnv and db = testStore and b = ?r
        and b' = ?l and user = alice] r l a
    by blast
qed

section \<open>Validation of a partial update\<close>





section \<open>Creating a recipe\<close>





end
